theory Spec2Isabelle
  imports Complex_Main "HOL-Library.AList" "HOL-Library.Log_Nat"
begin

section \<open>JavaScript numbers\<close>

text \<open>
  Every amount, share and weight of the program is a JavaScript \<open>number\<close>
  (the schema columns are \<open>real\<close>), that is an IEEE 754 binary64 value, and
  \<open>+\<close>, \<open>*\<close> and \<open>/\<close> return the exact result rounded to the nearest
  double, ties to even. A finite double is modelled by the rational it denotes and the
  rounding is written out in \<open>fl\<close>: 53 significant bits. The exponent range is not
  bounded (no overflow to Infinity, no subnormal numbers) and there is no negative zero;
  the not-a-number value is added where the program can produce it (\<open>jsnum\<close>).
  Identifiers and option indices are integers (\<open>serial\<close> and \<open>integer\<close> columns,
  \<open>parseInt\<close> of the URL parameter) and are modelled by \<open>int\<close>; a point in
  time (\<open>Date\<close>) is modelled by its number of milliseconds, an \<open>int\<close>, and the
  clock \<open>new Date()\<close> is the parameter \<open>now\<close> of the operation that reads it.
\<close>

definition ilog2 :: "rat \<Rightarrow> int" where
  "ilog2 x = (let (p, q) = quotient_of x; e = bitlen p - bitlen q
              in if power_int 2 e \<le> x then e else e - 1)"

definition rne :: "rat \<Rightarrow> int" where
  "rne m = (let f = \<lfloor>m\<rfloor>; d = m - of_int f
            in if d < 1 / 2 then f else if 1 / 2 < d then f + 1
               else if even f then f else f + 1)"

definition fl :: "rat \<Rightarrow> rat" where
  "fl x = (if x = 0 then 0
           else let u = power_int 2 (ilog2 \<bar>x\<bar> - 52)
                in sgn x * of_int (rne (\<bar>x\<bar> / u)) * u)"

definition js_add :: "rat \<Rightarrow> rat \<Rightarrow> rat" where
  "js_add a b = fl (a + b)"



datatype jsnum = Num rat | NaN

fun jsnum_add :: "jsnum \<Rightarrow> jsnum \<Rightarrow> jsnum" where
  "jsnum_add (Num a) (Num b) = Num (js_add a b)"
| "jsnum_add _ _ = NaN"

section \<open>The schema: entities and insert types\<close>

text \<open>
  One record per insert type, extended by the store-assigned columns to the entity
  type, as \<open>{ ...vote, id, timestamp }\<close> does. A field \<open>f\<close> of entity \<open>e\<close> is
  named \<open>e_f\<close>, since the same column names occur in several tables. A column that
  is not \<open>notNull\<close> is an option.
\<close>

record InsertUser =
  user_username :: string
  user_password :: string
  user_isArtist :: "bool option"
  user_walletAddress :: "string option"
  user_bio :: "string option"
  user_profileImage :: "string option"

record User = InsertUser +
  user_id :: int
  user_createdAt :: int

record InsertArtist =
  artist_userId :: int
  artist_name :: string
  artist_genres :: "string list option"
  artist_location :: "string option"
  artist_bannerImage :: "string option"
  artist_tokenName :: string
  artist_tokenSymbol :: string
  artist_tokenSupply :: int
  artist_artistShare :: rat
  artist_tokenHolderShare :: rat
  artist_treasuryShare :: rat
  artist_contractAddress :: "string option"

record Artist = InsertArtist +
  artist_id :: int

record InsertToken =
  token_artistId :: int
  token_userId :: int
  token_amount :: rat
  token_txHash :: "string option"
  token_method :: "string option"

record Token = InsertToken +
  token_id :: int
  token_purchaseDate :: int

record InsertProposal =
  proposal_artistId :: int
  proposal_creatorId :: int
  proposal_title :: string
  proposal_description :: string
  proposal_type :: string
  proposal_options :: "string list"
  proposal_endDate :: int

record Proposal = InsertProposal +
  proposal_id :: int
  proposal_startDate :: int
  proposal_status :: string

record InsertVote =
  vote_proposalId :: int
  vote_userId :: int
  vote_optionIndex :: int
  vote_weight :: rat

record Vote = InsertVote +
  vote_id :: int
  vote_timestamp :: int

record InsertRevenue =
  revenue_artistId :: int
  revenue_amount :: rat
  revenue_source :: string

record Revenue = InsertRevenue +
  revenue_id :: int
  revenue_date :: int
  revenue_distributed :: bool

record InsertEarning =
  earning_revenueId :: int
  earning_userId :: "int option"
  earning_artistId :: "int option"
  earning_treasuryId :: "int option"
  earning_amount :: rat
  earning_type :: string

record Earning = InsertEarning +
  earning_id :: int
  earning_date :: int

section \<open>MemStorage\<close>

text \<open>
  A JavaScript \<open>Map\<close> keeps its entries in insertion order and \<open>set\<close> on a key
  that is present replaces the value in place: an association list read with
  \<open>map_of\<close> and written with \<open>AList.update\<close>. \<open>Array.from(m.values())\<close> is
  \<open>map snd\<close>.
\<close>

record CurrentIds =
  ids_user :: int
  ids_artist :: int
  ids_token :: int
  ids_proposal :: int
  ids_vote :: int
  ids_revenue :: int
  ids_earning :: int

record MemStorage =
  users_map :: "(int \<times> User) list"
  artists_map :: "(int \<times> Artist) list"
  tokens_map :: "(int \<times> Token) list"
  proposals_map :: "(int \<times> Proposal) list"
  votes_map :: "(int \<times> Vote) list"
  revenues_map :: "(int \<times> Revenue) list"
  earnings_map :: "(int \<times> Earning) list"
  currentIds :: CurrentIds

text \<open>The constructor, before \<open>seedData\<close> (which only calls the operations below).\<close>

definition newMemStorage :: MemStorage where
  "newMemStorage =
     \<lparr>users_map = [], artists_map = [], tokens_map = [], proposals_map = [],
      votes_map = [], revenues_map = [], earnings_map = [],
      currentIds = \<lparr>ids_user = 1, ids_artist = 1, ids_token = 1, ids_proposal = 1,
                    ids_vote = 1, ids_revenue = 1, ids_earning = 1\<rparr>\<rparr>"

definition createUser :: "int \<Rightarrow> InsertUser \<Rightarrow> MemStorage \<Rightarrow> User \<times> MemStorage" where
  "createUser now user s =
     (let id = ids_user (currentIds s);
          newUser = InsertUser.extend user (User.fields id now)
      in (newUser, s\<lparr>users_map := AList.update id newUser (users_map s),
                      currentIds := (currentIds s)\<lparr>ids_user := id + 1\<rparr>\<rparr>))"


definition createArtist :: "InsertArtist \<Rightarrow> MemStorage \<Rightarrow> Artist \<times> MemStorage" where
  "createArtist artist s =
     (let id = ids_artist (currentIds s);
          newArtist = InsertArtist.extend artist (Artist.fields id)
      in (newArtist, s\<lparr>artists_map := AList.update id newArtist (artists_map s),
                        currentIds := (currentIds s)\<lparr>ids_artist := id + 1\<rparr>\<rparr>))"

definition updateArtistContractAddress ::
  "int \<Rightarrow> string \<Rightarrow> MemStorage \<Rightarrow> Artist option \<times> MemStorage" where
  "updateArtistContractAddress ident contractAddress s =
     (case map_of (artists_map s) ident of
        None \<Rightarrow> (None, s)
      | Some artist \<Rightarrow>
          (let updatedArtist = artist\<lparr>artist_contractAddress := Some contractAddress\<rparr>
           in (Some updatedArtist,
               s\<lparr>artists_map := AList.update ident updatedArtist (artists_map s)\<rparr>)))"

definition getUserTokens :: "int \<Rightarrow> MemStorage \<Rightarrow> Token list" where
  "getUserTokens userId s = filter (\<lambda>token. token_userId token = userId) (map snd (tokens_map s))"

definition createToken :: "int \<Rightarrow> InsertToken \<Rightarrow> MemStorage \<Rightarrow> Token \<times> MemStorage" where
  "createToken now token s =
     (let id = ids_token (currentIds s);
          newToken = InsertToken.extend token (Token.fields id now)
      in (newToken, s\<lparr>tokens_map := AList.update id newToken (tokens_map s),
                       currentIds := (currentIds s)\<lparr>ids_token := id + 1\<rparr>\<rparr>))"

definition getProposal :: "int \<Rightarrow> MemStorage \<Rightarrow> Proposal option" where
  "getProposal ident s = map_of (proposals_map s) ident"

definition createProposal ::
  "int \<Rightarrow> InsertProposal \<Rightarrow> MemStorage \<Rightarrow> Proposal \<times> MemStorage" where
  "createProposal now proposal s =
     (let id = ids_proposal (currentIds s);
          startDate = now;
          status = ''active'';
          newProposal = InsertProposal.extend proposal (Proposal.fields id startDate status)
      in (newProposal, s\<lparr>proposals_map := AList.update id newProposal (proposals_map s),
                          currentIds := (currentIds s)\<lparr>ids_proposal := id + 1\<rparr>\<rparr>))"

definition updateProposalStatus ::
  "int \<Rightarrow> string \<Rightarrow> MemStorage \<Rightarrow> Proposal option \<times> MemStorage" where
  "updateProposalStatus ident status s =
     (case map_of (proposals_map s) ident of
        None \<Rightarrow> (None, s)
      | Some proposal \<Rightarrow>
          (let updatedProposal = proposal\<lparr>proposal_status := status\<rparr>
           in (Some updatedProposal,
               s\<lparr>proposals_map := AList.update ident updatedProposal (proposals_map s)\<rparr>)))"

definition getActiveProposals :: "int \<Rightarrow> MemStorage \<Rightarrow> Proposal list" where
  "getActiveProposals now s =
     filter (\<lambda>proposal. proposal_status proposal = ''active'' \<and> proposal_endDate proposal > now)
       (map snd (proposals_map s))"

definition getProposalVotes :: "int \<Rightarrow> MemStorage \<Rightarrow> Vote list" where
  "getProposalVotes proposalId s =
     filter (\<lambda>vote. vote_proposalId vote = proposalId) (map snd (votes_map s))"

definition createVote :: "int \<Rightarrow> InsertVote \<Rightarrow> MemStorage \<Rightarrow> Vote \<times> MemStorage" where
  "createVote now vote s =
     (let id = ids_vote (currentIds s);
          newVote = InsertVote.extend vote (Vote.fields id now)
      in (newVote, s\<lparr>votes_map := AList.update id newVote (votes_map s),
                      currentIds := (currentIds s)\<lparr>ids_vote := id + 1\<rparr>\<rparr>))"


definition createRevenue :: "int \<Rightarrow> InsertRevenue \<Rightarrow> MemStorage \<Rightarrow> Revenue \<times> MemStorage" where
  "createRevenue now revenue s =
     (let id = ids_revenue (currentIds s);
          distributed = False;
          newRevenue = InsertRevenue.extend revenue (Revenue.fields id now distributed)
      in (newRevenue, s\<lparr>revenues_map := AList.update id newRevenue (revenues_map s),
                         currentIds := (currentIds s)\<lparr>ids_revenue := id + 1\<rparr>\<rparr>))"

definition markRevenueDistributed :: "int \<Rightarrow> MemStorage \<Rightarrow> Revenue option \<times> MemStorage" where
  "markRevenueDistributed ident s =
     (case map_of (revenues_map s) ident of
        None \<Rightarrow> (None, s)
      | Some revenue \<Rightarrow>
          (let updatedRevenue = revenue\<lparr>revenue_distributed := True\<rparr>
           in (Some updatedRevenue,
               s\<lparr>revenues_map := AList.update ident updatedRevenue (revenues_map s)\<rparr>)))"

definition createEarning :: "int \<Rightarrow> InsertEarning \<Rightarrow> MemStorage \<Rightarrow> Earning \<times> MemStorage" where
  "createEarning now earning s =
     (let id = ids_earning (currentIds s);
          newEarning = InsertEarning.extend earning (Earning.fields id now)
      in (newEarning, s\<lparr>earnings_map := AList.update id newEarning (earnings_map s),
                         currentIds := (currentIds s)\<lparr>ids_earning := id + 1\<rparr>\<rparr>))"

text \<open>
  The writing operations of the storage interface as one step function: every store the
  program can be in is reached from the constructor's store by these steps (the seed
  data and the routes call nothing else; the clock value is the step's first argument).
\<close>

datatype storage_op =
    CreateUser InsertUser
  | CreateArtist InsertArtist
  | UpdateArtistContractAddress int string
  | CreateToken InsertToken
  | CreateProposal InsertProposal
  | UpdateProposalStatus int string
  | CreateVote InsertVote
  | CreateRevenue InsertRevenue
  | MarkRevenueDistributed int
  | CreateEarning InsertEarning

fun step :: "int \<Rightarrow> storage_op \<Rightarrow> MemStorage \<Rightarrow> MemStorage" where
  "step now (CreateUser user) s = snd (createUser now user s)"
| "step now (CreateArtist artist) s = snd (createArtist artist s)"
| "step now (UpdateArtistContractAddress ident a) s = snd (updateArtistContractAddress ident a s)"
| "step now (CreateToken token) s = snd (createToken now token s)"
| "step now (CreateProposal proposal) s = snd (createProposal now proposal s)"
| "step now (UpdateProposalStatus ident status) s = snd (updateProposalStatus ident status s)"
| "step now (CreateVote vote) s = snd (createVote now vote s)"
| "step now (CreateRevenue revenue) s = snd (createRevenue now revenue s)"
| "step now (MarkRevenueDistributed ident) s = snd (markRevenueDistributed ident s)"
| "step now (CreateEarning earning) s = snd (createEarning now earning s)"

inductive reachable :: "MemStorage \<Rightarrow> bool" where
  init: "reachable newMemStorage"
| step: "reachable s \<Longrightarrow> reachable (step now opn s)"

fun run :: "(int \<times> storage_op) list \<Rightarrow> MemStorage \<Rightarrow> MemStorage" where
  "run [] s = s"
| "run ((now, opn) # rest) s = run rest (step now opn s)"

text \<open>Identifiers come from the counters only: every key is below its counter.\<close>

definition keys_below :: "int \<Rightarrow> (int \<times> 'a) list \<Rightarrow> bool" where
  "keys_below c al \<longleftrightarrow> (\<forall>k \<in> fst ` set al. k < c)"

definition ids_fresh :: "MemStorage \<Rightarrow> bool" where
  "ids_fresh s \<longleftrightarrow>
     keys_below (ids_proposal (currentIds s)) (proposals_map s) \<and>
     keys_below (ids_revenue (currentIds s)) (revenues_map s)"

section \<open>Routes\<close>

text \<open>
  A response is the status code with either the JSON body or the \<open>message\<close> of an
  error body. \<open>res.json(x)\<close> without \<open>status\<close> answers 200.
\<close>

datatype 'a response = Json nat 'a | Message nat string

subsection \<open>POST /api/proposals/:id/vote\<close>

text \<open>
  The request body after JSON parsing, as far as \<open>insertVoteSchema\<close> reads it. The
  schema requires \<open>userId\<close>, \<open>optionIndex\<close> and \<open>weight\<close> (columns that are
  \<open>notNull\<close> and have no default) to be numbers and \<open>parse\<close> throws otherwise,
  which the route answers with 400; a field is \<open>None\<close> when it is absent or not a
  number. \<open>proposalId\<close> is the one of the URL, spread over the body's.
\<close>

record VoteBody =
  body_userId :: "int option"
  body_optionIndex :: "int option"
  body_weight :: "rat option"

definition parseInsertVote :: "VoteBody \<Rightarrow> int \<Rightarrow> InsertVote option" where
  "parseInsertVote body proposalId =
     (case (body_userId body, body_optionIndex body, body_weight body) of
        (Some u, Some i, Some w) \<Rightarrow>
          Some \<lparr>vote_proposalId = proposalId, vote_userId = u, vote_optionIndex = i,
                vote_weight = w\<rparr>
      | _ \<Rightarrow> None)"

definition postProposalVote ::
  "int \<Rightarrow> int \<Rightarrow> VoteBody \<Rightarrow> MemStorage \<Rightarrow> Vote response \<times> MemStorage" where
  "postProposalVote now proposalId body s =
     (case getProposal proposalId s of
        None \<Rightarrow> (Message 404 ''Proposal not found'', s)
      | Some proposal \<Rightarrow>
          (case parseInsertVote body proposalId of
             None \<Rightarrow> (Message 400 ''Invalid vote data'', s)
           | Some voteData \<Rightarrow>
               (let userTokens = getUserTokens (vote_userId voteData) s;
                    artistTokens = filter (\<lambda>token. token_artistId token = proposal_artistId proposal)
                                     userTokens
                in if length artistTokens = 0
                   then (Message 403 ''User does not hold tokens for this artist'', s)
                   else (let tokenAmount = foldl (\<lambda>sum token. js_add sum (token_amount token)) 0
                                             artistTokens;
                             (vote, s') = createVote now (voteData\<lparr>vote_weight := tokenAmount\<rparr>) s
                         in (Json 201 vote, s')))))"

text \<open>
  The specification's holdings accessor, in its words: the sum of \<open>amount\<close> over every
  token row of the store that matches the artist and the user. It is the exact sum of
  the amounts, whatever the order of the rows.
\<close>

definition holdingAmounts :: "int \<Rightarrow> int \<Rightarrow> MemStorage \<Rightarrow> rat list" where
  "holdingAmounts artistId userId s =
     map token_amount
       (filter (\<lambda>token. token_artistId token = artistId \<and> token_userId token = userId)
          (map snd (tokens_map s)))"

definition totalHolding :: "int \<Rightarrow> int \<Rightarrow> MemStorage \<Rightarrow> rat" where
  "totalHolding artistId userId s = sum_list (holdingAmounts artistId userId s)"

text \<open>
  A number is representable when rounding leaves it as it is. The running sums of a list
  are exact when the sum of every prefix is representable: then adding the list up from
  the left as doubles never rounds.
\<close>

definition representable :: "rat \<Rightarrow> bool" where
  "representable x \<longleftrightarrow> fl x = x"

definition running_exact :: "rat list \<Rightarrow> bool" where
  "running_exact xs \<longleftrightarrow>
     list_all (\<lambda>k. representable (sum_list (take k xs))) [0..<Suc (length xs)]"

subsection \<open>Vote tabulation (GET /api/proposals/active, GET /api/artists/:id/proposals)\<close>

text \<open>
  Both routes run the same lines on a proposal's options and votes. An array cell is
  \<open>None\<close> where the array has a hole. \<open>optionVotes[i] += w\<close> reads cell \<open>i\<close>,
  which is \<open>undefined\<close> at a hole or outside the array, and \<open>undefined + w\<close> is
  not-a-number; writing at an index from the length on extends the array with holes.
  An index that is negative or at least \<open>2 ^ 32 - 1\<close> is not an array index: the
  assignment then sets a named property that \<open>reduce\<close> and the JSON output never
  visit, so the array stays as it is. \<open>reduce\<close> skips holes. The percentages computed
  from the counts and the total are not modelled.
\<close>

definition array_add_at :: "jsnum option list \<Rightarrow> int \<Rightarrow> rat \<Rightarrow> jsnum option list" where
  "array_add_at arr i w =
     (if 0 \<le> i \<and> i < int (length arr)
      then arr[nat i := Some (case arr ! nat i of Some v \<Rightarrow> jsnum_add v (Num w) | None \<Rightarrow> NaN)]
      else if int (length arr) \<le> i \<and> i < 2 ^ 32 - 1
      then arr @ replicate (nat i - length arr) None @ [Some NaN]
      else arr)"

definition optionVotes :: "string list \<Rightarrow> Vote list \<Rightarrow> jsnum option list" where
  "optionVotes options votes =
     foldl (\<lambda>arr vote. array_add_at arr (vote_optionIndex vote) (vote_weight vote))
       (replicate (length options) (Some (Num 0))) votes"

definition totalVotes :: "jsnum option list \<Rightarrow> jsnum" where
  "totalVotes arr = foldl (\<lambda>a cell. case cell of None \<Rightarrow> a | Some b \<Rightarrow> jsnum_add a b) (Num 0) arr"

definition proposalVoteCounts :: "MemStorage \<Rightarrow> Proposal \<Rightarrow> jsnum option list \<times> jsnum" where
  "proposalVoteCounts s proposal =
     (let votes = getProposalVotes (proposal_id proposal) s;
          counts = optionVotes (proposal_options proposal) votes
      in (counts, totalVotes counts))"

text \<open>
  The specification's \<open>perOptionWeight[i]\<close>, in its words: the sum of \<open>weight\<close> over
  the votes with \<open>optionIndex = i\<close>; here the exact sum, of the weights listed by
  \<open>optionWeights\<close> in the order of the votes. A whole number is a non-negative integer.
\<close>

definition optionWeights :: "nat \<Rightarrow> Vote list \<Rightarrow> rat list" where
  "optionWeights i votes =
     map vote_weight (filter (\<lambda>vote. vote_optionIndex vote = int i) votes)"

definition perOptionWeight :: "nat \<Rightarrow> Vote list \<Rightarrow> rat" where
  "perOptionWeight i votes = sum_list (optionWeights i votes)"

definition whole_number :: "rat \<Rightarrow> bool" where
  "whole_number x \<longleftrightarrow> 0 \<le> x \<and> of_int \<lfloor>x\<rfloor> = x"

subsection \<open>GET /api/artists/:id/revenue\<close>




subsection \<open>POST /api/proposals\<close>






section \<open>A sample ledger\<close>

text \<open>
  A cut of the seed data: the artist Aurora (shares 60/30/10), her first proposal with
  two options, open until time 5000, and a fan (user 2) holding 250 of her tokens, all
  written at time 1000.
\<close>

definition auroraUser :: InsertUser where
  "auroraUser =
     \<lparr>user_username = ''aurora_artist'', user_password = ''password123'',
      user_isArtist = Some True, user_walletAddress = None, user_bio = None,
      user_profileImage = None\<rparr>"

definition fanUser :: InsertUser where
  "fanUser =
     \<lparr>user_username = ''fan_user'', user_password = ''password123'',
      user_isArtist = Some False, user_walletAddress = None, user_bio = None,
      user_profileImage = None\<rparr>"

definition auroraArtist :: InsertArtist where
  "auroraArtist =
     \<lparr>artist_userId = 1, artist_name = ''Aurora'', artist_genres = Some [''Electronic''],
      artist_location = Some ''Stockholm, Sweden'', artist_bannerImage = None,
      artist_tokenName = ''AuroraShares'', artist_tokenSymbol = ''AURORA'',
      artist_tokenSupply = 1000000, artist_artistShare = 60, artist_tokenHolderShare = 30,
      artist_treasuryShare = 10, artist_contractAddress = None\<rparr>"

definition albumProposal :: InsertProposal where
  "albumProposal =
     \<lparr>proposal_artistId = 1, proposal_creatorId = 1,
      proposal_title = ''Album Concept Direction'',
      proposal_description = ''Vote on the creative direction'',
      proposal_type = ''creative'',
      proposal_options = [''Ethereal Electronic'', ''Acoustic Reimagining''],
      proposal_endDate = 5000\<rparr>"

definition holding :: "int \<Rightarrow> rat \<Rightarrow> InsertToken" where
  "holding userId amount =
     \<lparr>token_artistId = 1, token_userId = userId, token_amount = amount,
      token_txHash = None, token_method = None\<rparr>"

definition sampleStore :: MemStorage where
  "sampleStore =
     run [(1000, CreateUser auroraUser), (1000, CreateUser fanUser),
          (1000, CreateArtist auroraArtist), (1000, CreateProposal albumProposal),
          (1000, CreateToken (holding 2 250))] newMemStorage"

definition voteBody :: "int \<Rightarrow> int \<Rightarrow> rat \<Rightarrow> VoteBody" where
  "voteBody userId optionIndex weight =
     \<lparr>body_userId = Some userId, body_optionIndex = Some optionIndex,
      body_weight = Some weight\<rparr>"

definition streamingRevenue :: InsertRevenue where
  "streamingRevenue = \<lparr>revenue_artistId = 1, revenue_amount = 1, revenue_source = ''streaming''\<rparr>"

definition artistEarning :: InsertEarning where
  "artistEarning =
     \<lparr>earning_revenueId = 1, earning_userId = None, earning_artistId = Some 1,
      earning_treasuryId = None, earning_amount = fl (3 / 5), earning_type = ''artist''\<rparr>"


definition storedProposal :: Proposal where
  "storedProposal = InsertProposal.extend albumProposal (Proposal.fields 1 1000 ''active'')"

definition afterVotes :: "(int \<times> VoteBody) list \<Rightarrow> MemStorage \<Rightarrow> MemStorage" where
  "afterVotes requests s = foldl (\<lambda>s (now, body). snd (postProposalVote now 1 body s)) s requests"

text \<open>Three more holders with fractional holdings: 0.1, 0.1 and 0.4 as doubles.\<close>

definition smallHolders :: MemStorage where
  "smallHolders =
     run [(1100, CreateToken (holding 3 (fl (1 / 10)))),
          (1100, CreateToken (holding 4 (fl (1 / 10)))),
          (1100, CreateToken (holding 5 (fl (2 / 5))))] sampleStore"


text \<open>
  Further stores: a revenue event that has one earning and is marked distributed; the
  proposal closed; a third user whose only holding row has amount 0. And a proposal
  with a single, blank option and an end date (500) before its creation.
\<close>

definition distributedOnce :: MemStorage where
  "distributedOnce =
     run [(2000, CreateRevenue streamingRevenue), (2100, CreateEarning artistEarning),
          (2200, MarkRevenueDistributed 1)] sampleStore"

definition closedProposal :: MemStorage where
  "closedProposal = step 1500 (UpdateProposalStatus 1 ''closed'') sampleStore"

definition zeroHolder :: MemStorage where
  "zeroHolder = step 1100 (CreateToken (holding 3 0)) sampleStore"

definition blankProposal :: InsertProposal where
  "blankProposal =
     \<lparr>proposal_artistId = 1, proposal_creatorId = 1, proposal_title = ''Tour'',
      proposal_description = ''Where next'', proposal_type = ''business'',
      proposal_options = [''   ''], proposal_endDate = 500\<rparr>"

text \<open>
  Holders with several rows: user 3 with 750 and 0.5, user 4 with -8; and user 3 with the
  doubles 0.1, 0.2 and 0.3, in this order and in the reverse order. Last, the body of a
  request to create the album proposal, with its end date as the text of a date.
\<close>

definition mixedHolders :: MemStorage where
  "mixedHolders =
     run [(1100, CreateToken (holding 3 750)), (1100, CreateToken (holding 3 (1 / 2))),
          (1100, CreateToken (holding 4 (- 8)))] sampleStore"

definition fractionalRows :: MemStorage where
  "fractionalRows =
     run [(1100, CreateToken (holding 3 (fl (1 / 10)))),
          (1100, CreateToken (holding 3 (fl (1 / 5)))),
          (1100, CreateToken (holding 3 (fl (3 / 10))))] sampleStore"

definition fractionalRowsReversed :: MemStorage where
  "fractionalRowsReversed =
     run [(1100, CreateToken (holding 3 (fl (3 / 10)))),
          (1100, CreateToken (holding 3 (fl (1 / 5)))),
          (1100, CreateToken (holding 3 (fl (1 / 10))))] sampleStore"


section \<open>Rounding to double precision\<close>

text \<open>
  \<open>ilog2\<close> is the binary exponent, so \<open>fl\<close> keeps 53 significant bits; the
  rounding error is at most \<open>2 ^ -53\<close> relative, and integers up to \<open>2 ^ 53\<close> in
  magnitude are not rounded at all.
\<close>

lemma bitlen_rat_bounds:
  fixes p :: int
  assumes "0 < p"
  shows "power_int 2 (bitlen p - 1) \<le> (of_int p :: rat)" and "(of_int p :: rat) < power_int 2 (bitlen p)"
proof -
  from bitlen_bounds [OF assms] have lo: "2 ^ nat (bitlen p - 1) \<le> p" and hi: "p < 2 ^ nat (bitlen p)"
    by auto
  have pos: "0 < bitlen p"
    using assms bitlen_nonneg [of p] bitlen_eq_zero_iff [of p] by linarith
  from lo have "(of_int (2 ^ nat (bitlen p - 1)) :: rat) \<le> of_int p" by (simp only: of_int_le_iff)
  then show "power_int 2 (bitlen p - 1) \<le> (of_int p :: rat)"
    using pos by (simp add: power_int_def)
  from hi have "(of_int p :: rat) < of_int (2 ^ nat (bitlen p))" by (simp only: of_int_less_iff)
  then show "(of_int p :: rat) < power_int 2 (bitlen p)"
    using pos by (simp add: power_int_def)
qed

lemma ilog2_bounds:
  assumes "0 < x"
  shows "power_int 2 (ilog2 x) \<le> x" and "x < power_int 2 (ilog2 x + 1)"
proof -
  obtain p q where pq: "quotient_of x = (p, q)" by (cases "quotient_of x")
  have q: "0 < q" using pq by (rule quotient_of_denom_pos)
  have x: "x = of_int p / of_int q" using pq by (rule quotient_of_div)
  have p: "0 < p" using assms q x by (simp add: zero_less_divide_iff)
  let ?e = "bitlen p - bitlen q"
  have il: "ilog2 x = (if power_int 2 ?e \<le> x then ?e else ?e - 1)"
    by (simp add: ilog2_def pq Let_def)
  have qr: "(0::rat) < of_int q" using q by simp
  have lo: "power_int 2 (?e - 1) \<le> x"
  proof -
    have "power_int 2 (?e - 1) * (of_int q :: rat) \<le> power_int 2 (?e - 1) * power_int 2 (bitlen q)"
      using bitlen_rat_bounds(2) [OF q] by (intro mult_left_mono) (auto simp: less_imp_le)
    also have "\<dots> = power_int 2 (bitlen p - 1)"
      by (simp add: power_int_add [symmetric])
    also have "\<dots> \<le> of_int p" using bitlen_rat_bounds(1) [OF p] .
    finally show ?thesis using qr by (simp add: x pos_le_divide_eq)
  qed
  have hi: "x < power_int 2 (?e + 1)"
  proof -
    have "(of_int p :: rat) < power_int 2 (bitlen p)" using bitlen_rat_bounds(2) [OF p] .
    also have "\<dots> = power_int 2 (?e + 1) * power_int 2 (bitlen q - 1)"
      by (simp add: power_int_add [symmetric])
    also have "\<dots> \<le> power_int 2 (?e + 1) * of_int q"
      using bitlen_rat_bounds(1) [OF q] by (intro mult_left_mono) auto
    finally show ?thesis using qr by (simp add: x pos_divide_less_eq)
  qed
  show "power_int 2 (ilog2 x) \<le> x" using lo by (simp add: il)
  show "x < power_int 2 (ilog2 x + 1)" using hi by (auto simp add: il not_le)
qed

lemma rne_error: "\<bar>of_int (rne m) - m\<bar> \<le> 1 / 2"
proof -
  have "of_int \<lfloor>m\<rfloor> \<le> m" "m < of_int \<lfloor>m\<rfloor> + 1" by linarith+
  then show ?thesis by (auto simp add: rne_def Let_def)
qed

lemma rne_of_int: "rne (of_int n) = n"
  by (simp add: rne_def)

lemma fl_abs_error:
  assumes "x \<noteq> 0"
  shows "\<bar>fl x - x\<bar> \<le> power_int 2 (ilog2 \<bar>x\<bar> - 53)"
proof -
  define u :: rat where "u = power_int 2 (ilog2 \<bar>x\<bar> - 52)"
  have u: "0 < u" by (simp add: u_def zero_less_power_int)
  have fl: "fl x = sgn x * of_int (rne (\<bar>x\<bar> / u)) * u"
    using assms by (simp add: fl_def u_def Let_def)
  have "\<bar>fl x - x\<bar> = \<bar>sgn x * (of_int (rne (\<bar>x\<bar> / u)) * u - \<bar>x\<bar>)\<bar>"
    by (simp add: fl algebra_simps flip: mult_sgn_abs)
       (metis mult.commute mult_sgn_abs)
  also have "\<dots> = \<bar>of_int (rne (\<bar>x\<bar> / u)) * u - \<bar>x\<bar>\<bar>"
    using assms by (simp add: abs_mult abs_sgn_eq)
  also have "\<dots> = \<bar>of_int (rne (\<bar>x\<bar> / u)) - \<bar>x\<bar> / u\<bar> * u"
  proof -
    have "of_int (rne (\<bar>x\<bar> / u)) * u - \<bar>x\<bar> = (of_int (rne (\<bar>x\<bar> / u)) - \<bar>x\<bar> / u) * u"
      using u by (simp add: field_simps)
    then show ?thesis using u by (simp add: abs_mult)
  qed
  also have "\<dots> \<le> 1 / 2 * u"
    using rne_error [of "\<bar>x\<bar> / u"] u by (intro mult_right_mono) auto
  also have "\<dots> = power_int 2 (ilog2 \<bar>x\<bar> - 53)"
  proof -
    show ?thesis unfolding u_def by (simp add: power_int_diff)
  qed
  finally show ?thesis .
qed

lemma fl_rel_error: "\<bar>fl x - x\<bar> \<le> \<bar>x\<bar> / 2 ^ 53"
proof (cases "x = 0")
  case True
  then show ?thesis by (simp add: fl_def)
next
  case False
  then have pos: "0 < \<bar>x\<bar>" by simp
  have "\<bar>fl x - x\<bar> \<le> power_int 2 (ilog2 \<bar>x\<bar> - 53)" using False by (rule fl_abs_error)
  also have "\<dots> = power_int 2 (ilog2 \<bar>x\<bar>) / 2 ^ 53"
    by (simp add: power_int_diff)
  also have "\<dots> \<le> \<bar>x\<bar> / 2 ^ 53"
    using ilog2_bounds(1) [OF pos] by (simp add: divide_right_mono)
  finally show ?thesis .
qed

lemma fl_of_int_exact:
  assumes "\<bar>n\<bar> \<le> 2 ^ 53"
  shows "fl (of_int n) = of_int n"
proof (cases "n = 0")
  case True
  then show ?thesis by (simp add: fl_def)
next
  case False
  define x :: rat where "x = of_int n"
  define e where "e = ilog2 \<bar>x\<bar>"
  have x0: "x \<noteq> 0" and ax: "\<bar>x\<bar> = of_int \<bar>n\<bar>" using False by (simp_all add: x_def)
  have pos: "0 < \<bar>x\<bar>" using x0 by simp
  have le: "\<bar>x\<bar> \<le> 2 ^ 53"
  proof -
    have "(of_int \<bar>n\<bar> :: rat) \<le> of_int (2 ^ 53)" using assms by (simp only: of_int_le_iff)
    then show ?thesis by (simp add: ax)
  qed
  have "power_int 2 e \<le> (power_int 2 53 :: rat)"
    using ilog2_bounds(1) [OF pos] le by (simp add: e_def)
  then have e53: "e \<le> 53"
    using power_int_le_imp_le_exp [of "2::rat" e 53] by simp
  have fl: "fl x = sgn x * of_int (rne (\<bar>x\<bar> / power_int 2 (e - 52))) * power_int 2 (e - 52)"
    using x0 by (simp add: fl_def e_def Let_def)
  have "of_int (rne (\<bar>x\<bar> / power_int 2 (e - 52))) * power_int 2 (e - 52) = \<bar>x\<bar>"
  proof (cases "e \<le> 52")
    case True
    define k where "k = nat (52 - e)"
    have u: "power_int 2 (e - 52) = (1 / 2 ^ k :: rat)"
    proof -
      have "e - 52 = - int k" using True by (simp add: k_def)
      then show ?thesis by (simp add: power_int_minus_divide)
    qed
    have "\<bar>x\<bar> / power_int 2 (e - 52) = of_int (\<bar>n\<bar> * 2 ^ k)" by (simp add: u ax)
    then have "rne (\<bar>x\<bar> / power_int 2 (e - 52)) = \<bar>n\<bar> * 2 ^ k" by (simp only: rne_of_int)
    then show ?thesis by (simp add: u ax)
  next
    case False
    then have e: "e = 53" using e53 by simp
    have "(2 ^ 53 :: rat) \<le> \<bar>x\<bar>" using ilog2_bounds(1) [OF pos] by (simp add: e_def [symmetric] e)
    then have xe: "\<bar>x\<bar> = 2 ^ 53" using le by simp
    have "\<bar>x\<bar> / power_int 2 (e - 52) = of_int (2 ^ 52)" by (simp add: e xe)
    then have "rne (\<bar>x\<bar> / power_int 2 (e - 52)) = 2 ^ 52" by (simp only: rne_of_int)
    then show ?thesis by (simp add: e xe)
  qed
  then have "fl x = sgn x * \<bar>x\<bar>" by (simp add: fl mult.assoc)
  then show ?thesis by (simp add: x_def flip: mult_sgn_abs) (metis mult_sgn_abs x_def)
qed



section \<open>Sums of doubles\<close>

text \<open>
  Adding a list up from the left in doubles gives its exact sum when the running sums
  are exact, and in general differs from it by a factor \<open>(1 + 2 ^ -53) ^ n - 1\<close> of
  the sum of the absolute values at most. Whole numbers with a sum up to \<open>2 ^ 53\<close>
  have exact running sums.
\<close>

lemma running_exact_iff:
  "running_exact xs \<longleftrightarrow> (\<forall>k \<le> length xs. representable (sum_list (take k xs)))"
  by (auto simp add: running_exact_def list_all_iff less_Suc_eq_le)

lemma running_exact_snoc:
  "running_exact (xs @ [x]) \<longleftrightarrow> running_exact xs \<and> representable (sum_list xs + x)"
proof
  assume h: "running_exact (xs @ [x])"
  then have all: "\<forall>k \<le> length (xs @ [x]). representable (sum_list (take k (xs @ [x])))"
    by (simp only: running_exact_iff)
  have "running_exact xs"
    unfolding running_exact_iff
  proof (intro allI impI)
    fix k assume k: "k \<le> length xs"
    then have "k \<le> length (xs @ [x])" by simp
    with all have "representable (sum_list (take k (xs @ [x])))" by blast
    moreover have "take k (xs @ [x]) = take k xs" using k by simp
    ultimately show "representable (sum_list (take k xs))" by simp
  qed
  moreover have "representable (sum_list (take (Suc (length xs)) (xs @ [x])))"
  proof -
    have "Suc (length xs) \<le> length (xs @ [x])" by simp
    with all show ?thesis by blast
  qed
  ultimately show "running_exact xs \<and> representable (sum_list xs + x)" by simp
next
  assume h: "running_exact xs \<and> representable (sum_list xs + x)"
  show "running_exact (xs @ [x])"
    unfolding running_exact_iff
  proof (intro allI impI)
    fix k assume "k \<le> length (xs @ [x])"
    then consider "k \<le> length xs" | "k = Suc (length xs)" by fastforce
    then show "representable (sum_list (take k (xs @ [x])))"
    proof cases
      case 1
      then have "take k (xs @ [x]) = take k xs" by simp
      then show ?thesis using h 1 by (simp add: running_exact_iff)
    next
      case 2
      then show ?thesis using h by simp
    qed
  qed
qed

lemma foldl_js_add_exact: "running_exact xs \<Longrightarrow> foldl js_add 0 xs = sum_list xs"
proof (induction xs rule: rev_induct)
  case Nil
  show ?case by simp
next
  case (snoc x xs)
  then have "foldl js_add 0 xs = sum_list xs" and r: "representable (sum_list xs + x)"
    by (simp_all add: running_exact_snoc)
  then have "foldl js_add 0 (xs @ [x]) = js_add (sum_list xs) x" by simp
  also have "\<dots> = sum_list xs + x" using r by (simp only: js_add_def representable_def)
  finally show ?case by simp
qed

lemma foldl_js_add_error:
  "\<bar>foldl js_add 0 xs - sum_list xs\<bar>
     \<le> ((1 + 1 / 2 ^ 53) ^ length xs - 1) * sum_list (map abs xs)"
proof (induction xs rule: rev_induct)
  case Nil
  show ?case by simp
next
  case (snoc x xs)
  define u :: rat where "u = 1 / 2 ^ 53"
  define c where "c = (1 + u) ^ length xs"
  define r where "r = foldl js_add 0 xs"
  define S where "S = sum_list xs"
  define A where "A = sum_list (map abs xs)"
  have u: "0 \<le> u" by (simp add: u_def)
  have c1: "1 \<le> c" unfolding c_def using u by (intro one_le_power) simp
  have A0: "0 \<le> A" unfolding A_def by (induction xs) auto
  have SA: "\<bar>S\<bar> \<le> A" unfolding S_def A_def by (induction xs) auto
  have IH: "\<bar>r - S\<bar> \<le> (c - 1) * A"
    using snoc.IH by (simp add: r_def S_def A_def c_def u_def)
  have "\<bar>r + x\<bar> \<le> \<bar>r - S\<bar> + \<bar>S\<bar> + \<bar>x\<bar>" by linarith
  also have "\<dots> \<le> (c - 1) * A + A + \<bar>x\<bar>" using IH SA by linarith
  also have "\<dots> = c * A + \<bar>x\<bar>" by (simp add: algebra_simps)
  also have "\<dots> \<le> c * A + c * \<bar>x\<bar>" using c1 by (simp add: mult_le_cancel_right1)
  finally have rx: "\<bar>r + x\<bar> \<le> c * (A + \<bar>x\<bar>)" by (simp add: algebra_simps)
  have "\<bar>fl (r + x) - (r + x)\<bar> \<le> \<bar>r + x\<bar> * u"
    using fl_rel_error [of "r + x"] by (simp add: u_def)
  also have "\<dots> \<le> c * (A + \<bar>x\<bar>) * u" using rx u by (rule mult_right_mono)
  finally have e1: "\<bar>fl (r + x) - (r + x)\<bar> \<le> c * (A + \<bar>x\<bar>) * u" .
  have "(c - 1) * A \<le> (c - 1) * (A + \<bar>x\<bar>)" using c1 by (intro mult_left_mono) auto
  then have e2: "\<bar>r - S\<bar> \<le> (c - 1) * (A + \<bar>x\<bar>)" using IH by linarith
  have "\<bar>fl (r + x) - (S + x)\<bar> \<le> \<bar>fl (r + x) - (r + x)\<bar> + \<bar>r - S\<bar>" by linarith
  also have "\<dots> \<le> c * (A + \<bar>x\<bar>) * u + (c - 1) * (A + \<bar>x\<bar>)" using e1 e2 by linarith
  also have "\<dots> = ((1 + u) * c - 1) * (A + \<bar>x\<bar>)" by (simp add: algebra_simps)
  finally have "\<bar>fl (r + x) - (S + x)\<bar> \<le> ((1 + u) * c - 1) * (A + \<bar>x\<bar>)" .
  moreover have "foldl js_add 0 (xs @ [x]) = js_add r x" by (simp add: r_def)
  moreover have "js_add r x = fl (r + x)" by (simp only: js_add_def)
  ultimately have "\<bar>foldl js_add 0 (xs @ [x]) - (S + x)\<bar> \<le> ((1 + u) * c - 1) * (A + \<bar>x\<bar>)"
    by simp
  then show ?case
    by (simp add: S_def A_def c_def u_def)
qed

lemma whole_number_representable: "whole_number x \<Longrightarrow> x \<le> 2 ^ 53 \<Longrightarrow> representable x"
proof -
  assume w: "whole_number x" and le: "x \<le> 2 ^ 53"
  then have eq: "of_int \<lfloor>x\<rfloor> = x" and nn: "0 \<le> x" by (simp_all add: whole_number_def)
  have "(of_int \<lfloor>x\<rfloor> :: rat) \<le> of_int (2 ^ 53)" using le eq by simp
  then have "\<lfloor>x\<rfloor> \<le> 2 ^ 53" by (simp only: of_int_le_iff)
  moreover have "0 \<le> \<lfloor>x\<rfloor>" using nn by simp
  ultimately have "fl (of_int \<lfloor>x\<rfloor>) = of_int \<lfloor>x\<rfloor>" by (intro fl_of_int_exact) simp
  then show "representable x" by (simp add: representable_def eq)
qed

lemma whole_number_sum_list: "\<forall>x \<in> set xs. whole_number x \<Longrightarrow> whole_number (sum_list xs)"
proof (induction xs)
  case Nil
  show ?case by (simp add: whole_number_def)
next
  case (Cons x xs)
  then have "whole_number x" "whole_number (sum_list xs)" by simp_all
  then show ?case
    unfolding whole_number_def by (metis add_nonneg_nonneg floor_add_int of_int_add sum_list.Cons)
qed

lemma whole_number_running_exact:
  assumes "\<forall>x \<in> set xs. whole_number x" and "sum_list xs \<le> 2 ^ 53"
  shows "running_exact xs"
  unfolding running_exact_iff
proof (intro allI impI)
  fix k assume "k \<le> length xs"
  have w: "whole_number (sum_list (take k xs))"
    using assms(1) by (intro whole_number_sum_list) (auto dest: in_set_takeD)
  have "\<forall>x \<in> set (drop k xs). 0 \<le> x"
    using assms(1) by (auto simp add: whole_number_def dest: in_set_dropD)
  then have "0 \<le> sum_list (drop k xs)" by (intro sum_list_nonneg) simp
  moreover have "sum_list xs = sum_list (take k xs) + sum_list (drop k xs)"
    by (metis append_take_drop_id sum_list_append)
  ultimately have "sum_list (take k xs) \<le> 2 ^ 53" using assms(2) by linarith
  with w show "representable (sum_list (take k xs))" by (rule whole_number_representable)
qed

section \<open>The tabulation, option by option\<close>

lemma optionWeights_snoc:
  "optionWeights i (vs @ [v]) =
     optionWeights i vs @ (if vote_optionIndex v = int i then [vote_weight v] else [])"
  by (simp add: optionWeights_def)

lemma optionVotes_buckets:
  assumes "\<forall>v \<in> set vs. 0 \<le> vote_optionIndex v \<and> vote_optionIndex v < int (length options)"
  shows "optionVotes options vs =
           map (\<lambda>i. Some (Num (foldl js_add 0 (optionWeights i vs)))) [0..<length options]"
  using assms
proof (induction vs rule: rev_induct)
  case Nil
  show ?case by (simp add: optionVotes_def optionWeights_def map_replicate_const)
next
  case (snoc v vs)
  let ?n = "length options"
  let ?i = "nat (vote_optionIndex v)"
  let ?cell = "\<lambda>vs i. Some (Num (foldl js_add 0 (optionWeights i vs)))"
  have IH: "optionVotes options vs = map (?cell vs) [0..<?n]"
    using snoc.IH snoc.prems by simp
  have idx: "0 \<le> vote_optionIndex v" "vote_optionIndex v < int ?n" "?i < ?n"
    using snoc.prems by auto
  have step: "optionVotes options (vs @ [v])
              = array_add_at (optionVotes options vs) (vote_optionIndex v) (vote_weight v)"
    by (simp add: optionVotes_def)
  have inr: "0 \<le> vote_optionIndex v \<and> vote_optionIndex v < int (length (map (?cell vs) [0..<?n]))"
    using idx by simp
  have "array_add_at (map (?cell vs) [0..<?n]) (vote_optionIndex v) (vote_weight v)
        = (map (?cell vs) [0..<?n])
            [?i := Some (Num (js_add (foldl js_add 0 (optionWeights ?i vs)) (vote_weight v)))]"
    unfolding array_add_at_def if_P [OF inr] using idx(3) by simp
  also have "\<dots> = map (?cell (vs @ [v])) [0..<?n]"
  proof (rule nth_equalityI)
    show "length ((map (?cell vs) [0..<?n])
            [?i := Some (Num (js_add (foldl js_add 0 (optionWeights ?i vs)) (vote_weight v)))])
          = length (map (?cell (vs @ [v])) [0..<?n])"
      by simp
  next
    fix j
    assume "j < length ((map (?cell vs) [0..<?n])
            [?i := Some (Num (js_add (foldl js_add 0 (optionWeights ?i vs)) (vote_weight v)))])"
    then have j: "j < ?n" by simp
    show "(map (?cell vs) [0..<?n])
            [?i := Some (Num (js_add (foldl js_add 0 (optionWeights ?i vs)) (vote_weight v)))] ! j
          = map (?cell (vs @ [v])) [0..<?n] ! j"
    proof (cases "j = ?i")
      case True
      then show ?thesis using j idx(1) by (simp add: optionWeights_snoc)
    next
      case False
      then have "vote_optionIndex v \<noteq> int j" using idx(1) by auto
      then show ?thesis using j False by (simp add: optionWeights_snoc)
    qed
  qed
  finally show ?case unfolding step IH .
qed

lemma totalVotes_fold:
  "totalVotes (map (\<lambda>i. Some (Num (c i))) [0..<n]) = Num (foldl js_add 0 (map c [0..<n]))"
  by (induction n) (simp_all add: totalVotes_def)

lemma sum_perOptionWeight:
  "\<forall>v \<in> set vs. 0 \<le> vote_optionIndex v \<and> vote_optionIndex v < int n \<Longrightarrow>
   (\<Sum>i<n. perOptionWeight i vs) = sum_list (map vote_weight vs)"
proof (induction vs)
  case Nil
  then show ?case by (simp add: perOptionWeight_def optionWeights_def)
next
  case (Cons v vs)
  then have idx: "nat (vote_optionIndex v) < n" "int (nat (vote_optionIndex v)) = vote_optionIndex v"
    by auto
  have "(\<Sum>i<n. perOptionWeight i (v # vs))
        = (\<Sum>i<n. (if i = nat (vote_optionIndex v) then vote_weight v else 0) + perOptionWeight i vs)"
    using idx by (intro sum.cong) (auto simp: perOptionWeight_def optionWeights_def)
  also have "\<dots> = vote_weight v + (\<Sum>i<n. perOptionWeight i vs)"
    using idx by (simp add: sum.distrib)
  finally show ?case using Cons by simp
qed

section \<open>Reachable stores\<close>

lemma keys_below_update:
  "keys_below c al \<Longrightarrow> i < c' \<Longrightarrow> c \<le> c' \<Longrightarrow> keys_below c' (AList.update i v al)"
  unfolding keys_below_def by (induction al) auto

lemma keys_below_lookup: "keys_below c al \<Longrightarrow> map_of al k = Some v \<Longrightarrow> k < c"
  unfolding keys_below_def by (induction al) (auto split: if_splits)

lemma ids_fresh_step: "ids_fresh s \<Longrightarrow> ids_fresh (step now opn s)"
  by (cases opn)
     (auto simp add: ids_fresh_def createUser_def createArtist_def createToken_def
        createVote_def createEarning_def createProposal_def createRevenue_def
        updateProposalStatus_def markRevenueDistributed_def updateArtistContractAddress_def
        Let_def split: option.splits intro!: keys_below_update dest: keys_below_lookup)

lemma reachable_ids_fresh: "reachable s \<Longrightarrow> ids_fresh s"
proof (induction rule: reachable.induct)
  case init
  show ?case by (simp add: ids_fresh_def keys_below_def newMemStorage_def)
next
  case (step s now opn)
  then show ?case by (simp add: ids_fresh_step)
qed

lemma reachable_run: "reachable s \<Longrightarrow> reachable (run ops s)"
  by (induction ops arbitrary: s) (auto simp add: reachable.step)



section \<open>Facts about the routes and the sample ledger\<close>

lemma step_keeps_proposal:
  assumes "ids_fresh s" and "getProposal pid s = Some p"
    and "\<forall>i st. opn \<noteq> UpdateProposalStatus i st"
  shows "getProposal pid (step now opn s) = Some p"
proof (cases opn)
  case (CreateProposal x)
  have "pid < ids_proposal (currentIds s)"
    using assms(1,2) by (auto simp add: ids_fresh_def getProposal_def dest: keys_below_lookup)
  then show ?thesis
    using assms(2) CreateProposal
    by (simp add: createProposal_def getProposal_def Let_def update_conv')
next
  case (UpdateProposalStatus i st)
  then show ?thesis using assms(3) by simp
qed (use assms(2) in \<open>auto simp add: getProposal_def createUser_def createArtist_def
    createToken_def createVote_def createEarning_def createRevenue_def
    markRevenueDistributed_def updateArtistContractAddress_def Let_def split: option.splits\<close>)

lemma holding_fold:
  "foldl (\<lambda>sum token. js_add sum (token_amount token)) 0
     (filter (\<lambda>token. token_artistId token = a) (getUserTokens u s))
   = foldl js_add 0 (holdingAmounts a u s)"
  by (simp add: getUserTokens_def holdingAmounts_def foldl_map conj_commute)

lemma vote_created_weight:
  assumes "postProposalVote now pid body s = (Json 201 vote, s')"
  shows "\<exists>p. getProposal pid s = Some p \<and> body_userId body = Some (vote_userId vote) \<and>
             map_of (votes_map s') (vote_id vote) = Some vote \<and>
             vote_weight vote
               = foldl js_add 0 (holdingAmounts (proposal_artistId p) (vote_userId vote) s)"
  using assms
  by (auto simp add: postProposalVote_def parseInsertVote_def createVote_def Let_def
      holding_fold update_conv' InsertVote.defs Vote.defs
      split: option.splits prod.splits if_splits)


lemma sampleStore_proposal: "getProposal 1 sampleStore = Some storedProposal"
  by code_simp

section \<open>C1: revenue events and the distributed flag\<close>




section \<open>C2: votes and the proposal lifecycle\<close>

text \<open>
  C2, as amended. The vote route never reads the status or the end date of the
  proposal: its response and the votes it stores are the same whatever these two fields
  hold. (The test "status is active and the end date is after now" is made by
  \<open>getActiveProposals\<close> only, for the listing.)
\<close>

theorem vote_ignores_lifecycle:
  assumes "getProposal pid s = Some p"
    and "s2 = s\<lparr>proposals_map :=
                 AList.update pid (p\<lparr>proposal_status := st, proposal_endDate := e\<rparr>)
                   (proposals_map s)\<rparr>"
  shows "fst (postProposalVote now pid body s2) = fst (postProposalVote now pid body s) \<and>
         votes_map (snd (postProposalVote now pid body s2))
           = votes_map (snd (postProposalVote now pid body s))"
  using assms(1) unfolding assms(2)
  by (simp add: postProposalVote_def getProposal_def update_conv' getUserTokens_def
      createVote_def Let_def split: option.splits prod.splits)

theorem vote_ignores_lifecycle_witness:
  "getProposal 1 sampleStore = Some storedProposal \<and>
   fst (postProposalVote 9000 1 (voteBody 2 0 0)
          (sampleStore\<lparr>proposals_map :=
             AList.update 1 (storedProposal\<lparr>proposal_status := ''closed'', proposal_endDate := 0\<rparr>)
               (proposals_map sampleStore)\<rparr>))
     = fst (postProposalVote 9000 1 (voteBody 2 0 0) sampleStore) \<and>
   votes_map (snd (postProposalVote 9000 1 (voteBody 2 0 0)
          (sampleStore\<lparr>proposals_map :=
             AList.update 1 (storedProposal\<lparr>proposal_status := ''closed'', proposal_endDate := 0\<rparr>)
               (proposals_map sampleStore)\<rparr>)))
     = votes_map (snd (postProposalVote 9000 1 (voteBody 2 0 0) sampleStore))"
  using vote_ignores_lifecycle [OF sampleStore_proposal refl,
      where st = "''closed''" and e = 0 and now = 9000 and body = "voteBody 2 0 0"]
    sampleStore_proposal by simp

text \<open>
  The claim as stated fails: at time 9000 the sample proposal (status active, end date
  5000) is no longer listed as active, and the holder's vote is answered with 201 and
  stored; so is a vote on the closed proposal.
\<close>

theorem vote_lifecycle_counterexample:
  "map_option proposal_status (getProposal 1 sampleStore) = Some ''active'' \<and>
   map_option proposal_endDate (getProposal 1 sampleStore) = Some 5000 \<and>
   getActiveProposals 9000 sampleStore = [] \<and>
   fst (postProposalVote 9000 1 (voteBody 2 0 0) sampleStore) =
     Json 201 \<lparr>vote_proposalId = 1, vote_userId = 2, vote_optionIndex = 0, vote_weight = 250,
               vote_id = 1, vote_timestamp = 9000\<rparr> \<and>
   map_option proposal_status (getProposal 1 closedProposal) = Some ''closed'' \<and>
   fst (postProposalVote 2000 1 (voteBody 2 0 0) closedProposal) =
     Json 201 \<lparr>vote_proposalId = 1, vote_userId = 2, vote_optionIndex = 0, vote_weight = 250,
               vote_id = 1, vote_timestamp = 2000\<rparr> \<and>
   length (getProposalVotes 1 (snd (postProposalVote 2000 1 (voteBody 2 0 0) closedProposal))) = 1"
  by code_simp

section \<open>C3: the option index of a vote\<close>

text \<open>
  C3, as amended. The vote route checks only that \<open>optionIndex\<close> is a number (a body
  without one is answered with 400 and nothing is stored). It never compares the index
  with the options of the proposal: the response is the same whatever the options are,
  and a vote that is accepted is stored with the index of the request.
\<close>

theorem vote_ignores_options:
  assumes "getProposal pid s = Some p"
    and "s2 = s\<lparr>proposals_map :=
                 AList.update pid (p\<lparr>proposal_options := os\<rparr>) (proposals_map s)\<rparr>"
  shows "postProposalVote now pid (body\<lparr>body_optionIndex := None\<rparr>) s
           = (Message 400 ''Invalid vote data'', s) \<and>
         fst (postProposalVote now pid (body\<lparr>body_optionIndex := Some i\<rparr>) s2)
           = fst (postProposalVote now pid (body\<lparr>body_optionIndex := Some i\<rparr>) s) \<and>
         (\<forall>vote. fst (postProposalVote now pid (body\<lparr>body_optionIndex := Some i\<rparr>) s) = Json 201 vote
            \<longrightarrow> vote_optionIndex vote = i \<and>
                map_of (votes_map (snd (postProposalVote now pid (body\<lparr>body_optionIndex := Some i\<rparr>) s)))
                  (vote_id vote) = Some vote)"
  using assms(1) unfolding assms(2)
  by (auto simp add: postProposalVote_def getProposal_def update_conv' getUserTokens_def
      parseInsertVote_def createVote_def Let_def InsertVote.defs Vote.defs
      split: option.splits prod.splits)

theorem vote_ignores_options_witness:
  "getProposal 1 sampleStore = Some storedProposal \<and>
   postProposalVote 2000 1 ((voteBody 2 7 0)\<lparr>body_optionIndex := None\<rparr>) sampleStore
     = (Message 400 ''Invalid vote data'', sampleStore) \<and>
   fst (postProposalVote 2000 1 ((voteBody 2 7 0)\<lparr>body_optionIndex := Some 7\<rparr>)
          (sampleStore\<lparr>proposals_map :=
             AList.update 1 (storedProposal\<lparr>proposal_options := []\<rparr>) (proposals_map sampleStore)\<rparr>))
     = fst (postProposalVote 2000 1 ((voteBody 2 7 0)\<lparr>body_optionIndex := Some 7\<rparr>) sampleStore)"
  using vote_ignores_options [OF sampleStore_proposal refl,
      where os = "[]" and i = 7 and now = 2000 and body = "voteBody 2 7 0"]
    sampleStore_proposal by simp

text \<open>
  The claim as stated fails: the sample proposal has two options, and votes with the
  indices 7 and -1 are answered with 201 and stored.
\<close>

theorem vote_option_index_counterexample:
  "map_option (length \<circ> proposal_options) (getProposal 1 sampleStore) = Some 2 \<and>
   fst (postProposalVote 2000 1 (voteBody 2 7 0) sampleStore) =
     Json 201 \<lparr>vote_proposalId = 1, vote_userId = 2, vote_optionIndex = 7, vote_weight = 250,
               vote_id = 1, vote_timestamp = 2000\<rparr> \<and>
   map vote_optionIndex
     (getProposalVotes 1 (snd (postProposalVote 2000 1 (voteBody 2 (- 1) 0) sampleStore))) = [- 1]"
  by code_simp

section \<open>C4: votes without holdings\<close>

text \<open>
  C4, as amended. For a user with no token row for the artist of the proposal, a vote
  request with numeric fields is answered with 403 whatever its option index, and no
  request of that user changes the store. The route tests the number of rows, not the
  sum of their amounts.
\<close>

theorem vote_without_holding_rejected:
  assumes "getProposal pid s = Some p"
    and "\<forall>token \<in> set (map snd (tokens_map s)).
           \<not> (token_userId token = u \<and> token_artistId token = proposal_artistId p)"
  shows "postProposalVote now pid (voteBody u i w) s
           = (Message 403 ''User does not hold tokens for this artist'', s) \<and>
         (body_userId body = Some u \<longrightarrow> snd (postProposalVote now pid body s) = s)"
proof -
  have "filter (\<lambda>token. token_artistId token = proposal_artistId p) (getUserTokens u s) = []"
    using assms(2) by (auto simp add: getUserTokens_def filter_empty_conv)
  then show ?thesis
    using assms(1)
    by (auto simp add: postProposalVote_def parseInsertVote_def voteBody_def Let_def
        split: option.splits)
qed

theorem vote_without_holding_rejected_witness:
  "getProposal 1 sampleStore = Some storedProposal \<and>
   getUserTokens 1 sampleStore = [] \<and>
   postProposalVote 2000 1 (voteBody 1 7 0) sampleStore
     = (Message 403 ''User does not hold tokens for this artist'', sampleStore)"
proof -
  have t: "map snd (tokens_map sampleStore) =
             [\<lparr>token_artistId = 1, token_userId = 2, token_amount = 250, token_txHash = None,
               token_method = None, token_id = 1, token_purchaseDate = 1000\<rparr>]"
    by code_simp
  have u: "getUserTokens 1 sampleStore = []" by code_simp
  have "\<forall>token \<in> set (map snd (tokens_map sampleStore)).
          \<not> (token_userId token = 1 \<and> token_artistId token = proposal_artistId storedProposal)"
    unfolding t by simp
  from vote_without_holding_rejected [OF sampleStore_proposal this, of 2000 7 0]
  show ?thesis using sampleStore_proposal u by simp
qed

text \<open>
  The claim as stated fails: user 3 has one holding row with amount 0, a total holding
  of 0, and the vote is stored with weight 0.
\<close>

theorem zero_holding_vote_counterexample:
  "totalHolding 1 3 zeroHolder = 0 \<and>
   map token_amount (getUserTokens 3 zeroHolder) = [0] \<and>
   fst (postProposalVote 2000 1 (voteBody 3 0 0) zeroHolder) =
     Json 201 \<lparr>vote_proposalId = 1, vote_userId = 3, vote_optionIndex = 0, vote_weight = 0,
               vote_id = 1, vote_timestamp = 2000\<rparr> \<and>
   length (getProposalVotes 1 (snd (postProposalVote 2000 1 (voteBody 3 0 0) zeroHolder))) = 1"
  by code_simp

section \<open>C5: the weight of a vote is derived by the server\<close>

text \<open>
  C5, as amended. When the vote route answers 201, the stored vote's weight is the sum of
  \<open>amount\<close> over the token rows of the voting user for the artist of the proposal
  (\<open>totalHolding\<close>) up to rounding: the rows are added in their order, as doubles, so the
  weight differs from the sum by at most \<open>(1 + 2 ^ -53) ^ n - 1\<close> times the sum of the
  absolute amounts of the \<open>n\<close> rows, and it is the sum when the running sums of the
  amounts are exact. Two requests that differ only in the weight they supply get the
  same response and leave the same store.
\<close>

theorem vote_weight_server_derived:
  "(postProposalVote now pid body s = (Json 201 vote, s') \<longrightarrow>
      (\<exists>p. getProposal pid s = Some p \<and> body_userId body = Some (vote_userId vote) \<and>
           map_of (votes_map s') (vote_id vote) = Some vote \<and>
           \<bar>vote_weight vote - totalHolding (proposal_artistId p) (vote_userId vote) s\<bar>
             \<le> ((1 + 1 / 2 ^ 53)
                   ^ length (holdingAmounts (proposal_artistId p) (vote_userId vote) s) - 1)
                 * sum_list (map abs (holdingAmounts (proposal_artistId p) (vote_userId vote) s)) \<and>
           (running_exact (holdingAmounts (proposal_artistId p) (vote_userId vote) s) \<longrightarrow>
              vote_weight vote = totalHolding (proposal_artistId p) (vote_userId vote) s))) \<and>
   postProposalVote now pid (body\<lparr>body_weight := Some w1\<rparr>) s
     = postProposalVote now pid (body\<lparr>body_weight := Some w2\<rparr>) s"
proof (intro conjI impI)
  assume "postProposalVote now pid body s = (Json 201 vote, s')"
  from vote_created_weight [OF this] obtain p where
    p: "getProposal pid s = Some p" "body_userId body = Some (vote_userId vote)"
       "map_of (votes_map s') (vote_id vote) = Some vote"
    and w: "vote_weight vote
              = foldl js_add 0 (holdingAmounts (proposal_artistId p) (vote_userId vote) s)"
    by blast
  show "\<exists>p. getProposal pid s = Some p \<and> body_userId body = Some (vote_userId vote) \<and>
           map_of (votes_map s') (vote_id vote) = Some vote \<and>
           \<bar>vote_weight vote - totalHolding (proposal_artistId p) (vote_userId vote) s\<bar>
             \<le> ((1 + 1 / 2 ^ 53)
                   ^ length (holdingAmounts (proposal_artistId p) (vote_userId vote) s) - 1)
                 * sum_list (map abs (holdingAmounts (proposal_artistId p) (vote_userId vote) s)) \<and>
           (running_exact (holdingAmounts (proposal_artistId p) (vote_userId vote) s) \<longrightarrow>
              vote_weight vote = totalHolding (proposal_artistId p) (vote_userId vote) s)"
    using p foldl_js_add_error [of "holdingAmounts (proposal_artistId p) (vote_userId vote) s"]
      foldl_js_add_exact [of "holdingAmounts (proposal_artistId p) (vote_userId vote) s"]
    unfolding w totalHolding_def by blast
next
  show "postProposalVote now pid (body\<lparr>body_weight := Some w1\<rparr>) s
     = postProposalVote now pid (body\<lparr>body_weight := Some w2\<rparr>) s"
    by (simp add: postProposalVote_def parseInsertVote_def Let_def split: option.splits)
qed

theorem vote_weight_server_derived_witness:
  "postProposalVote 2000 1 (voteBody 3 0 999) mixedHolders =
     (Json 201 \<lparr>vote_proposalId = 1, vote_userId = 3, vote_optionIndex = 0,
                vote_weight = 1501 / 2, vote_id = 1, vote_timestamp = 2000\<rparr>,
      snd (postProposalVote 2000 1 (voteBody 3 0 999) mixedHolders)) \<and>
   holdingAmounts 1 3 mixedHolders = [750, 1 / 2] \<and>
   running_exact [750, 1 / 2] \<and>
   totalHolding 1 3 mixedHolders = 1501 / 2 \<and>
   postProposalVote 2000 1 ((voteBody 3 0 999)\<lparr>body_weight := Some 999\<rparr>) mixedHolders
     = postProposalVote 2000 1 ((voteBody 3 0 999)\<lparr>body_weight := Some 1\<rparr>) mixedHolders"
proof -
  let ?v = "\<lparr>vote_proposalId = 1, vote_userId = 3, vote_optionIndex = 0,
                vote_weight = 1501 / 2, vote_id = 1, vote_timestamp = 2000\<rparr>"
  let ?s' = "snd (postProposalVote 2000 1 (voteBody 3 0 999) mixedHolders)"
  have r: "postProposalVote 2000 1 (voteBody 3 0 999) mixedHolders = (Json 201 ?v, ?s')"
    by code_simp
  have p: "getProposal 1 mixedHolders = Some storedProposal" by code_simp
  have a: "proposal_artistId storedProposal = 1" by code_simp
  have h: "holdingAmounts 1 3 mixedHolders = [750, 1 / 2]" by code_simp
  have e: "running_exact [750, 1 / 2]" by code_simp
  from vote_weight_server_derived [of 2000 1 "voteBody 3 0 999" mixedHolders ?v ?s' 999 1] r
  have "\<exists>q. getProposal 1 mixedHolders = Some q \<and>
          (running_exact (holdingAmounts (proposal_artistId q) (vote_userId ?v) mixedHolders) \<longrightarrow>
             vote_weight ?v = totalHolding (proposal_artistId q) (vote_userId ?v) mixedHolders)"
    and i: "postProposalVote 2000 1 ((voteBody 3 0 999)\<lparr>body_weight := Some 999\<rparr>) mixedHolders
     = postProposalVote 2000 1 ((voteBody 3 0 999)\<lparr>body_weight := Some 1\<rparr>) mixedHolders"
    by blast+
  then have "totalHolding 1 3 mixedHolders = 1501 / 2"
    using p a h e by auto
  then show ?thesis using r h e i by simp
qed

text \<open>
  The claim as stated fails: for a user whose rows hold the doubles 0.1, 0.2 and 0.3 the
  stored weight is 0.6000000000000001, and 0.6 when the same rows are stored in the
  reverse order; neither is the sum of the three amounts, which is the same in both
  stores.
\<close>

theorem vote_weight_sum_counterexample:
  "holdingAmounts 1 3 fractionalRows = [fl (1 / 10), fl (1 / 5), fl (3 / 10)] \<and>
   holdingAmounts 1 3 fractionalRowsReversed = [fl (3 / 10), fl (1 / 5), fl (1 / 10)] \<and>
   fst (postProposalVote 2000 1 (voteBody 3 0 0) fractionalRows) =
     Json 201 \<lparr>vote_proposalId = 1, vote_userId = 3, vote_optionIndex = 0,
               vote_weight = 5404319552844596 / 9007199254740992,
               vote_id = 1, vote_timestamp = 2000\<rparr> \<and>
   fst (postProposalVote 2000 1 (voteBody 3 0 0) fractionalRowsReversed) =
     Json 201 \<lparr>vote_proposalId = 1, vote_userId = 3, vote_optionIndex = 0,
               vote_weight = 5404319552844595 / 9007199254740992,
               vote_id = 1, vote_timestamp = 2000\<rparr> \<and>
   totalHolding 1 3 fractionalRows = 21617278211378381 / 36028797018963968 \<and>
   totalHolding 1 3 fractionalRowsReversed = 21617278211378381 / 36028797018963968 \<and>
   (5404319552844596 / 9007199254740992 :: rat) \<noteq> 21617278211378381 / 36028797018963968 \<and>
   (5404319552844595 / 9007199254740992 :: rat) \<noteq> 21617278211378381 / 36028797018963968"
  by code_simp

section \<open>C6: tally conservation\<close>

text \<open>
  C6, as amended. When every vote stored for the proposal has its option index inside
  the options, and the running sums that the tabulation forms are exact (those of the
  weights of each option, in the order of the votes, and those of the per-option sums, in
  the order of the options), the counts are the per-option sums of the weights, the
  total is the sum of the weights of all the votes, and the per-option sums add up to
  it.
\<close>

theorem tally_conservation:
  assumes "votes = getProposalVotes (proposal_id proposal) s"
    and "n = length (proposal_options proposal)"
    and "\<forall>vote \<in> set votes. 0 \<le> vote_optionIndex vote \<and> vote_optionIndex vote < int n"
    and "\<forall>i<n. running_exact (optionWeights i votes)"
    and "running_exact (map (\<lambda>i. perOptionWeight i votes) [0..<n])"
  shows "proposalVoteCounts s proposal =
           (map (\<lambda>i. Some (Num (perOptionWeight i votes))) [0..<n],
            Num (sum_list (map vote_weight votes))) \<and>
         (\<Sum>i<n. perOptionWeight i votes) = sum_list (map vote_weight votes)"
proof -
  have total: "(\<Sum>i<n. perOptionWeight i votes) = sum_list (map vote_weight votes)"
    using assms(3) by (rule sum_perOptionWeight)
  have "optionVotes (proposal_options proposal) votes =
          map (\<lambda>i. Some (Num (foldl js_add 0 (optionWeights i votes)))) [0..<n]"
    unfolding assms(2) using assms(3) unfolding assms(2) by (rule optionVotes_buckets)
  also have "\<dots> = map (\<lambda>i. Some (Num (perOptionWeight i votes))) [0..<n]"
    using assms(4) by (simp add: foldl_js_add_exact perOptionWeight_def)
  finally have counts: "optionVotes (proposal_options proposal) votes =
                  map (\<lambda>i. Some (Num (perOptionWeight i votes))) [0..<n]" .
  have "totalVotes (map (\<lambda>i. Some (Num (perOptionWeight i votes))) [0..<n]) =
          Num (foldl js_add 0 (map (\<lambda>i. perOptionWeight i votes) [0..<n]))"
    by (rule totalVotes_fold)
  also have "\<dots> = Num (sum_list (map (\<lambda>i. perOptionWeight i votes) [0..<n]))"
    using assms(5) by (simp add: foldl_js_add_exact)
  also have "sum_list (map (\<lambda>i. perOptionWeight i votes) [0..<n]) = (\<Sum>i<n. perOptionWeight i votes)"
    by (simp add: interv_sum_list_conv_sum_set_nat atLeast0LessThan)
  finally have "totalVotes (map (\<lambda>i. Some (Num (perOptionWeight i votes))) [0..<n]) =
          Num (sum_list (map vote_weight votes))"
    using total by simp
  then show ?thesis
    using counts total by (simp add: proposalVoteCounts_def assms(1) [symmetric] Let_def)
qed

theorem tally_conservation_witness:
  "map vote_weight (getProposalVotes (proposal_id storedProposal)
       (afterVotes [(2000, voteBody 2 0 0), (2001, voteBody 3 1 0), (2002, voteBody 2 0 0),
                    (2003, voteBody 4 1 0)] mixedHolders)) = [250, 1501 / 2, 250, - 8] \<and>
   map vote_optionIndex (getProposalVotes (proposal_id storedProposal)
       (afterVotes [(2000, voteBody 2 0 0), (2001, voteBody 3 1 0), (2002, voteBody 2 0 0),
                    (2003, voteBody 4 1 0)] mixedHolders)) = [0, 1, 0, 1] \<and>
   length (proposal_options storedProposal) = 2 \<and>
   proposalVoteCounts
       (afterVotes [(2000, voteBody 2 0 0), (2001, voteBody 3 1 0), (2002, voteBody 2 0 0),
                    (2003, voteBody 4 1 0)] mixedHolders) storedProposal =
     ([Some (Num 500), Some (Num (1485 / 2))], Num (2485 / 2))"
proof -
  let ?s = "afterVotes [(2000, voteBody 2 0 0), (2001, voteBody 3 1 0), (2002, voteBody 2 0 0),
                    (2003, voteBody 4 1 0)] mixedHolders"
  let ?vs = "getProposalVotes (proposal_id storedProposal) ?s"
  have w: "map vote_weight ?vs = [250, 1501 / 2, 250, - 8]" by code_simp
  have ix: "map vote_optionIndex ?vs = [0, 1, 0, 1]" by code_simp
  have n: "length (proposal_options storedProposal) = 2" by code_simp
  have range: "\<forall>vote \<in> set ?vs. 0 \<le> vote_optionIndex vote \<and> vote_optionIndex vote < int 2"
  proof
    fix vote assume "vote \<in> set ?vs"
    then have "vote_optionIndex vote \<in> set (map vote_optionIndex ?vs)" by simp
    then show "0 \<le> vote_optionIndex vote \<and> vote_optionIndex vote < int 2"
      unfolding ix by auto
  qed
  have b0: "running_exact (optionWeights 0 ?vs)" by code_simp
  have b1: "running_exact (optionWeights 1 ?vs)" by code_simp
  have buckets: "\<forall>i<2. running_exact (optionWeights i ?vs)"
    using b0 b1 by (auto simp add: less_2_cases_iff)
  have p0: "perOptionWeight 0 ?vs = 500" by code_simp
  have p1: "perOptionWeight 1 ?vs = 1485 / 2" by code_simp
  have across: "running_exact (map (\<lambda>i. perOptionWeight i ?vs) [0..<2])"
    by code_simp
  have "proposalVoteCounts ?s storedProposal =
           (map (\<lambda>i. Some (Num (perOptionWeight i ?vs))) [0..<2],
            Num (sum_list (map vote_weight ?vs))) \<and>
         (\<Sum>i<2. perOptionWeight i ?vs) = sum_list (map vote_weight ?vs)"
    using tally_conservation [OF refl n [symmetric] range buckets across] .
  then have "proposalVoteCounts ?s storedProposal =
           ([Some (Num 500), Some (Num (1485 / 2))], Num (2485 / 2))"
    unfolding w by (simp add: p0 p1 upt_rec numeral_2_eq_2)
  then show ?thesis using w ix n by simp
qed

text \<open>
  The claim as stated fails. A vote with index -1 is not counted: the total is 0 while
  the weights of the stored votes sum to 250. A vote with index 2, one past the options,
  makes the total not-a-number. And with the weights 0.1, 0.1 and 0.4 on the options 0, 1
  and 0, the total 0.6 is neither the exact sum of the weights nor their sum taken vote
  by vote (0.6000000000000001).
\<close>

theorem tally_conservation_counterexample:
  "proposalVoteCounts (afterVotes [(2000, voteBody 2 (- 1) 0)] sampleStore) storedProposal =
     ([Some (Num 0), Some (Num 0)], Num 0) \<and>
   sum_list (map vote_weight
     (getProposalVotes 1 (afterVotes [(2000, voteBody 2 (- 1) 0)] sampleStore))) = 250 \<and>
   proposalVoteCounts (afterVotes [(2000, voteBody 2 2 0)] sampleStore) storedProposal =
     ([Some (Num 0), Some (Num 0), Some NaN], NaN) \<and>
   proposalVoteCounts
     (afterVotes [(2000, voteBody 3 0 0), (2001, voteBody 4 1 0), (2002, voteBody 5 0 0)]
        smallHolders) storedProposal =
     ([Some (Num (1 / 2)), Some (Num (fl (1 / 10)))], Num (fl (3 / 5))) \<and>
   map vote_weight (getProposalVotes 1
     (afterVotes [(2000, voteBody 3 0 0), (2001, voteBody 4 1 0), (2002, voteBody 5 0 0)]
        smallHolders)) = [fl (1 / 10), fl (1 / 10), fl (2 / 5)] \<and>
   fl (3 / 5) \<noteq> fl (1 / 10) + fl (1 / 10) + fl (2 / 5) \<and>
   fl (3 / 5) \<noteq> js_add (js_add (js_add 0 (fl (1 / 10))) (fl (1 / 10))) (fl (2 / 5))"
  by code_simp

section \<open>C7: the three-way split\<close>




section \<open>C8: creating a proposal\<close>




section \<open>C9: the status of a proposal\<close>

text \<open>
  C9, as amended. \<open>updateProposalStatus\<close> on a stored proposal writes the given
  status whatever the current one is and answers with the updated proposal; no other
  operation of the store changes a stored proposal.
\<close>

theorem updateProposalStatus_overwrites:
  assumes "reachable s" and "getProposal pid s = Some p"
  shows "fst (updateProposalStatus pid st s) = Some (p\<lparr>proposal_status := st\<rparr>) \<and>
         getProposal pid (snd (updateProposalStatus pid st s)) = Some (p\<lparr>proposal_status := st\<rparr>) \<and>
         ((\<forall>i st'. opn \<noteq> UpdateProposalStatus i st') \<longrightarrow>
            getProposal pid (step now opn s) = Some p)"
  using assms(2) step_keeps_proposal [OF reachable_ids_fresh [OF assms(1)] assms(2), of opn now]
  by (simp add: updateProposalStatus_def getProposal_def Let_def update_conv')

theorem updateProposalStatus_overwrites_witness:
  "getProposal 1 closedProposal = Some (storedProposal\<lparr>proposal_status := ''closed''\<rparr>) \<and>
   fst (updateProposalStatus 1 ''active'' closedProposal) =
     Some (storedProposal\<lparr>proposal_status := ''active''\<rparr>) \<and>
   getProposal 1 (snd (updateProposalStatus 1 ''active'' closedProposal)) =
     Some (storedProposal\<lparr>proposal_status := ''active''\<rparr>) \<and>
   getProposal 1 (step 2000 (CreateProposal blankProposal) closedProposal) =
     Some (storedProposal\<lparr>proposal_status := ''closed''\<rparr>)"
proof -
  have reach: "reachable closedProposal"
    unfolding closedProposal_def sampleStore_def
    by (intro reachable.step reachable_run reachable.init)
  have p: "getProposal 1 closedProposal = Some (storedProposal\<lparr>proposal_status := ''closed''\<rparr>)"
    by code_simp
  show ?thesis
    using updateProposalStatus_overwrites [OF reach p, of "''active''" "CreateProposal blankProposal" 2000] p
    by simp
qed

text \<open>
  The claim as stated fails: the closed proposal is set back to active.
\<close>

theorem terminal_status_counterexample:
  "map_option proposal_status (getProposal 1 closedProposal) = Some ''closed'' \<and>
   map_option proposal_status (fst (updateProposalStatus 1 ''active'' closedProposal)) =
     Some ''active'' \<and>
   map_option proposal_status
     (getProposal 1 (snd (updateProposalStatus 1 ''active'' closedProposal))) = Some ''active''"
  by code_simp

section \<open>C10: not-found results of the updating operations\<close>

text \<open>
  C10. For an id that is not a key of the store, \<open>updateProposalStatus\<close>,
  \<open>updateArtistContractAddress\<close> and \<open>markRevenueDistributed\<close> return
  \<open>undefined\<close> (here \<open>None\<close>; the model has no other outcome, so nothing is thrown)
  and the store they return is the store they were given: every map and every id
  counter is as before.
\<close>

theorem not_found_leaves_store:
  "(map_of (proposals_map s) pid = None \<longrightarrow> updateProposalStatus pid status s = (None, s)) \<and>
   (map_of (artists_map s) aid = None \<longrightarrow> updateArtistContractAddress aid addr s = (None, s)) \<and>
   (map_of (revenues_map s) rid = None \<longrightarrow> markRevenueDistributed rid s = (None, s))"
  by (simp add: updateProposalStatus_def updateArtistContractAddress_def
      markRevenueDistributed_def)

theorem not_found_leaves_store_witness:
  "map fst (proposals_map distributedOnce) = [1] \<and>
   map fst (artists_map distributedOnce) = [1] \<and>
   map fst (revenues_map distributedOnce) = [1] \<and>
   map_of (proposals_map distributedOnce) 7 = None \<and>
   map_of (artists_map distributedOnce) 7 = None \<and>
   map_of (revenues_map distributedOnce) 7 = None \<and>
   updateProposalStatus 7 ''closed'' distributedOnce = (None, distributedOnce) \<and>
   updateArtistContractAddress 7 ''0xabc'' distributedOnce = (None, distributedOnce) \<and>
   markRevenueDistributed 7 distributedOnce = (None, distributedOnce)"
proof -
  have k: "map fst (proposals_map distributedOnce) = [1]"
    "map fst (artists_map distributedOnce) = [1]"
    "map fst (revenues_map distributedOnce) = [1]"
    by code_simp+
  have n: "map_of (proposals_map distributedOnce) 7 = None"
    "map_of (artists_map distributedOnce) 7 = None"
    "map_of (revenues_map distributedOnce) 7 = None"
    by code_simp+
  show ?thesis
    using not_found_leaves_store [of distributedOnce 7 "''closed''" 7 "''0xabc''" 7] k n
    by simp
qed

end
